theory Spec2Isabelle
  imports Complex_Main
begin

section \<open>WarmLeggs backend: data model\<close>

text \<open>
  The embedding follows \<^verbatim>\<open>src/schemas.py\<close> and \<^verbatim>\<open>src/main.py\<close>.
  Python floats are modelled as reals: rounding, infinities and NaN are outside the model.
  The exception that the arithmetic of the handlers can raise, the conversion of an int
  beyond the range of a float, is part of the model. A stored document is modelled with one optional component per schema field
  (\<open>None\<close>: the key is absent); a field that is present carries a value of the
  schema's type.
  Field names that several classes share are written qualified
  (\<open>CartItem.quantity\<close>, \<open>OrderItem.quantity\<close>); \<open>size\<close>, \<open>id\<close> and \<open>notes\<close>
  clash with names of Isabelle and carry a prime.
\<close>

subsection \<open>Exceptions\<close>

text \<open>
  \<open>HTTPException code detail\<close> is FastAPI's exception; \<open>InvalidId\<close> is raised by
  \<^verbatim>\<open>bson.ObjectId\<close>; \<open>ValidationError model fields\<close> is raised by a pydantic
  constructor and lists the violated fields; \<open>RequestValidationError\<close> is FastAPI's
  rejection (status 422) of a request body before the handler runs; \<open>StorageError\<close> is
  any failure of the database driver; \<open>OverflowError\<close> is raised by Python when an int
  is too large to be converted to a float. \<open>Str e\<close> stands for Python's \<^verbatim>\<open>str(e)\<close>.
\<close>

datatype exn =
    HTTPException nat detail
  | InvalidId string
  | ValidationError string "string list"
  | RequestValidationError "string list"
  | StorageError
  | OverflowError
and detail = Message string | Str exn

type_synonym oid = string

subsection \<open>schemas.py\<close>

record Product =
  title :: string
  description :: "string option"
  price :: real
  category :: string
  in_stock :: bool
  images :: "string list"
  colors :: "string list"
  sizes :: "string list"
  featured :: bool
  warmth_rating :: "int option"
  fabric :: "string option"
  sku :: "string option"

record OrderItem =
  product_id :: string
  title :: string
  price :: real
  color :: "string option"
  size' :: "string option"
  quantity :: int

record Order =
  items :: "OrderItem list"
  customer_name :: string
  customer_email :: string
  shipping_address :: string
  subtotal :: real
  shipping_cost :: real
  total :: real
  status :: string
  notes' :: "string option"

text \<open>
  The declared constraints of \<^verbatim>\<open>Product\<close>: \<^verbatim>\<open>price: ge=0\<close> and
  \<^verbatim>\<open>warmth_rating: Optional[int], ge=1, le=5\<close> (the bounds apply to a value that is
  not \<^verbatim>\<open>None\<close>). The result lists the violated fields in declaration order.
\<close>

definition Product_errors :: "real \<Rightarrow> int option \<Rightarrow> string list" where
  "Product_errors pr wr =
     (if pr \<ge> 0 then [] else [''price'']) @
     (case wr of None \<Rightarrow> [] | Some w \<Rightarrow> if 1 \<le> w \<and> w \<le> 5 then [] else [''warmth_rating''])"

text \<open>
  The constructor \<^verbatim>\<open>OrderItem(...)\<close> as \<^verbatim>\<open>checkout\<close> calls it. \<^verbatim>\<open>title\<close> is a
  required \<^verbatim>\<open>str\<close>, so \<^verbatim>\<open>None\<close> is refused; \<^verbatim>\<open>price: ge=0\<close>;
  \<^verbatim>\<open>quantity: ge=1\<close>.
\<close>

definition OrderItem_errors :: "string option \<Rightarrow> real \<Rightarrow> int \<Rightarrow> string list" where
  "OrderItem_errors t pr q =
     (case t of None \<Rightarrow> [''title''] | Some _ \<Rightarrow> []) @
     (if pr \<ge> 0 then [] else [''price'']) @
     (if q \<ge> 1 then [] else [''quantity''])"

definition OrderItem_init ::
  "string \<Rightarrow> string option \<Rightarrow> real \<Rightarrow> string option \<Rightarrow> string option \<Rightarrow> int \<Rightarrow> exn + OrderItem" where
  "OrderItem_init pid t pr c s q =
     (case OrderItem_errors t pr q of
        [] \<Rightarrow> Inr \<lparr>product_id = pid, title = the t, price = pr, color = c, size' = s, quantity = q\<rparr>
      | e # es \<Rightarrow> Inl (ValidationError ''OrderItem'' (e # es)))"

text \<open>
  The constructor \<^verbatim>\<open>Order(...)\<close>: \<^verbatim>\<open>subtotal\<close>, \<^verbatim>\<open>shipping_cost\<close> and
  \<^verbatim>\<open>total\<close> are declared \<^verbatim>\<open>ge=0\<close>; \<^verbatim>\<open>items: List[OrderItem]\<close> carries no
  length constraint.
\<close>

definition Order_errors :: "real \<Rightarrow> real \<Rightarrow> real \<Rightarrow> string list" where
  "Order_errors st sc tt =
     (if st \<ge> 0 then [] else [''subtotal'']) @
     (if sc \<ge> 0 then [] else [''shipping_cost'']) @
     (if tt \<ge> 0 then [] else [''total''])"

definition Order_init ::
  "OrderItem list \<Rightarrow> string \<Rightarrow> string \<Rightarrow> string \<Rightarrow> real \<Rightarrow> real \<Rightarrow> real \<Rightarrow> string \<Rightarrow> string option
     \<Rightarrow> exn + Order" where
  "Order_init its cn ce sa st sc tt stat nts =
     (case Order_errors st sc tt of
        [] \<Rightarrow> Inr \<lparr>items = its, customer_name = cn, customer_email = ce, shipping_address = sa,
                   subtotal = st, shipping_cost = sc, total = tt, status = stat, notes' = nts\<rparr>
      | e # es \<Rightarrow> Inl (ValidationError ''Order'' (e # es)))"

subsection \<open>main.py: request and response models\<close>

record ProductResponse = Product +
  id' :: string

record CartItem =
  product_id :: string
  quantity :: int
  color :: "string option"
  size' :: "string option"

record CheckoutRequest =
  items :: "CartItem list"
  customer_name :: string
  customer_email :: string
  shipping_address :: string
  notes' :: "string option"

text \<open>
  \<^verbatim>\<open>CartItem\<close> declares \<^verbatim>\<open>quantity: int = 1\<close> with no \<^verbatim>\<open>Field\<close> constraint, and
  \<^verbatim>\<open>CheckoutRequest\<close> declares none either: a well-typed body has no violated field.
\<close>

definition CartItem_errors :: "CartItem \<Rightarrow> string list" where
  "CartItem_errors item = []"

definition CheckoutRequest_errors :: "CheckoutRequest \<Rightarrow> string list" where
  "CheckoutRequest_errors payload = concat (map CartItem_errors (CheckoutRequest.items payload))"

section \<open>The document store\<close>

text \<open>
  A document of the \<^verbatim>\<open>product\<close> collection, as far as the code reads it.
  \<open>warmth_rating\<close> distinguishes an absent key (\<open>None\<close>) from a stored null
  (\<open>Some None\<close>), since the schema's default applies to the first only.
\<close>

record product_doc =
  title :: "string option"
  description :: "string option"
  price :: "real option"
  category :: "string option"
  in_stock :: "bool option"
  images :: "string list option"
  colors :: "string list option"
  sizes :: "string list option"
  featured :: "bool option"
  warmth_rating :: "int option option"
  fabric :: "string option"
  sku :: "string option"

text \<open>The calls the handlers make on the store, in the order they are made.\<close>

datatype db_call =
    Find_product oid
  | Get_documents_product "bool option"
  | Insert_product
  | Insert_order

record database =
  product :: "(oid \<times> product_doc) list"
  order :: "(oid \<times> Order) list"
  reachable :: bool
  calls :: "db_call list"

subsection \<open>bson.ObjectId\<close>

text \<open>
  \<^verbatim>\<open>ObjectId(s)\<close> accepts a string of 24 hexadecimal digits and raises
  \<^verbatim>\<open>InvalidId\<close> on any other string. An identifier is represented by its canonical
  text, the 24 digits in lower case, which is what \<^verbatim>\<open>str(oid)\<close> returns.
\<close>

definition is_hex :: "char \<Rightarrow> bool" where
  "is_hex c = (c \<in> set ''0123456789abcdefABCDEF'')"

definition lower_hex :: "char \<Rightarrow> char" where
  "lower_hex c =
     (if c = CHR ''A'' then CHR ''a'' else if c = CHR ''B'' then CHR ''b''
      else if c = CHR ''C'' then CHR ''c'' else if c = CHR ''D'' then CHR ''d''
      else if c = CHR ''E'' then CHR ''e'' else if c = CHR ''F'' then CHR ''f'' else c)"

definition ObjectId :: "string \<Rightarrow> exn + oid" where
  "ObjectId s =
     (if length s = 24 \<and> list_all is_hex s then Inr (map lower_hex s) else Inl (InvalidId s))"

definition str :: "oid \<Rightarrow> string" where
  "str i = i"

subsection \<open>database.py\<close>

text \<open>
  Modelled from the spec: \<^verbatim>\<open>database.py\<close> (\<^verbatim>\<open>db\<close>, \<^verbatim>\<open>create_document\<close>,
  \<^verbatim>\<open>get_documents\<close>) is not among the sources. The spec's store contract: insert
  persists a new record and returns the identifier the store assigns to it, list returns
  every record matching an optional equality filter in storage order, get fetches by
  identifier, and each operation fails with a storage error when the persistence layer is
  unreachable. The identifier the store assigns is the argument \<open>new\<close>; that it is
  unique is a hypothesis wherever a statement needs it. Every call is recorded in
  \<open>calls\<close>, also one that fails.
\<close>

definition model_dump :: "Product \<Rightarrow> product_doc" where
  "model_dump p =
     \<lparr>title = Some (Product.title p), description = Product.description p,
      price = Some (Product.price p), category = Some (Product.category p),
      in_stock = Some (Product.in_stock p), images = Some (Product.images p),
      colors = Some (Product.colors p), sizes = Some (Product.sizes p),
      featured = Some (Product.featured p), warmth_rating = Some (Product.warmth_rating p),
      fabric = Product.fabric p, sku = Product.sku p\<rparr>"

definition create_document_product :: "oid \<Rightarrow> Product \<Rightarrow> database \<Rightarrow> (exn + string) \<times> database" where
  "create_document_product new p db =
     (let db1 = db\<lparr>calls := calls db @ [Insert_product]\<rparr>
      in if reachable db
         then (Inr (str new), db1\<lparr>product := product db @ [(new, model_dump p)]\<rparr>)
         else (Inl StorageError, db1))"

definition create_document_order :: "oid \<Rightarrow> Order \<Rightarrow> database \<Rightarrow> (exn + string) \<times> database" where
  "create_document_order new ord db =
     (let db1 = db\<lparr>calls := calls db @ [Insert_order]\<rparr>
      in if reachable db
         then (Inr (str new), db1\<lparr>order := order db @ [(new, ord)]\<rparr>)
         else (Inl StorageError, db1))"

definition matches :: "bool option \<Rightarrow> product_doc \<Rightarrow> bool" where
  "matches query d = (case query of None \<Rightarrow> True | Some f \<Rightarrow> product_doc.featured d = Some f)"

definition get_documents_product ::
  "bool option \<Rightarrow> database \<Rightarrow> (exn + (oid \<times> product_doc) list) \<times> database" where
  "get_documents_product query db =
     (let db1 = db\<lparr>calls := calls db @ [Get_documents_product query]\<rparr>
      in if reachable db
         then (Inr (filter (\<lambda>(i, d). matches query d) (product db)), db1)
         else (Inl StorageError, db1))"

text \<open>\<^verbatim>\<open>db["product"].find({"_id": oid})\<close>: the documents with that identifier.\<close>

definition find_product :: "oid \<Rightarrow> database \<Rightarrow> (exn + product_doc list) \<times> database" where
  "find_product i db =
     (let db1 = db\<lparr>calls := calls db @ [Find_product i]\<rparr>
      in if reachable db
         then (Inr (map snd (filter (\<lambda>(j, d). j = i) (product db))), db1)
         else (Inl StorageError, db1))"

text \<open>\<^verbatim>\<open>next(iter(xs), None)\<close>\<close>

definition next_iter :: "'a list \<Rightarrow> 'a option" where
  "next_iter xs = (case xs of [] \<Rightarrow> None | x # _ \<Rightarrow> Some x)"

section \<open>main.py: the handlers\<close>

subsection \<open>checkout\<close>

text \<open>\<^verbatim>\<open>float(prod.get("price", 0))\<close>\<close>

definition get_price :: "product_doc \<Rightarrow> real" where
  "get_price prd = (case product_doc.price prd of None \<Rightarrow> 0 | Some p \<Rightarrow> p)"

text \<open>
  The operand conversion of \<^verbatim>\<open>price * item.quantity\<close> (line 94): the int is
  converted to a float, rounding to nearest, and Python raises \<^verbatim>\<open>OverflowError\<close> when
  the result is beyond the largest float, that is from \<open>2 ^ 1024 - 2 ^ 970\<close> on in
  absolute value.
\<close>

definition int_to_float :: "int \<Rightarrow> exn + real" where
  "int_to_float n =
     (if \<bar>n\<bar> < 2 ^ 1024 - 2 ^ 970 then Inr (real_of_int n) else Inl OverflowError)"

text \<open>
  The loop over \<^verbatim>\<open>payload.items\<close>, with the loop variables \<^verbatim>\<open>order_items\<close> and
  \<^verbatim>\<open>subtotal\<close> (here \<open>sub\<close>) as accumulators. An exception leaves the loop at
  once. The local variables \<^verbatim>\<open>price\<close>, \<^verbatim>\<open>shipping_cost\<close> and \<^verbatim>\<open>total\<close> are
  \<open>pr\<close>, \<open>ship\<close> and \<open>tot\<close>, the field names being taken.
\<close>

fun checkout_loop ::
  "CartItem list \<Rightarrow> OrderItem list \<Rightarrow> real \<Rightarrow> database \<Rightarrow> (exn + OrderItem list \<times> real) \<times> database" where
  "checkout_loop [] order_items sub db = (Inr (order_items, sub), db)"
| "checkout_loop (item # rest) order_items sub db =
     (case ObjectId (CartItem.product_id item) of
        Inl e \<Rightarrow> (Inl e, db)
      | Inr i \<Rightarrow>
          (case find_product i db of
             (Inl e, db1) \<Rightarrow> (Inl e, db1)
           | (Inr prod_docs, db1) \<Rightarrow>
               (case next_iter prod_docs of
                  None \<Rightarrow>
                    (Inl (HTTPException 404
                       (Message (''Product '' @ CartItem.product_id item @ '' not found''))), db1)
                | Some prd \<Rightarrow>
                    (let pr = get_price prd
                     in case int_to_float (CartItem.quantity item) of
                          Inl e \<Rightarrow> (Inl e, db1)
                        | Inr q \<Rightarrow>
                            (let sub1 = sub + pr * q
                             in case OrderItem_init (CartItem.product_id item) (product_doc.title prd) pr
                                       (CartItem.color item) (CartItem.size' item)
                                       (CartItem.quantity item) of
                                  Inl e \<Rightarrow> (Inl e, db1)
                                | Inr oi \<Rightarrow> checkout_loop rest (order_items @ [oi]) sub1 db1)))))"

text \<open>
  The body of the \<^verbatim>\<open>try\<close> block, in two parts: \<open>checkout_order\<close> is lines 85 to
  115, which end with the constructor \<^verbatim>\<open>Order(...)\<close>, and \<open>checkout_body\<close> adds
  the call \<^verbatim>\<open>create_document("order", order)\<close>.
\<close>

definition checkout_order :: "CheckoutRequest \<Rightarrow> database \<Rightarrow> (exn + Order) \<times> database" where
  "checkout_order payload db =
     (case checkout_loop (CheckoutRequest.items payload) [] 0 db of
        (Inl e, db1) \<Rightarrow> (Inl e, db1)
      | (Inr (order_items, sub), db1) \<Rightarrow>
          (let ship = (if sub \<ge> 100 then 0 else 10);
               tot = sub + ship
           in (Order_init order_items (CheckoutRequest.customer_name payload)
                 (CheckoutRequest.customer_email payload)
                 (CheckoutRequest.shipping_address payload)
                 sub ship tot ''pending'' (CheckoutRequest.notes' payload), db1)))"

definition checkout_body :: "oid \<Rightarrow> CheckoutRequest \<Rightarrow> database \<Rightarrow> (exn + string) \<times> database" where
  "checkout_body new payload db =
     (case checkout_order payload db of
        (Inl e, db1) \<Rightarrow> (Inl e, db1)
      | (Inr ord, db1) \<Rightarrow> create_document_order new ord db1)"

text \<open>
  \<^verbatim>\<open>except HTTPException: raise\<close>, then
  \<^verbatim>\<open>except Exception as e: raise HTTPException(status_code=500, detail=str(e))\<close>.
\<close>

definition checkout :: "oid \<Rightarrow> CheckoutRequest \<Rightarrow> database \<Rightarrow> (exn + string) \<times> database" where
  "checkout new payload db =
     (case checkout_body new payload db of
        (Inl (HTTPException c d), db1) \<Rightarrow> (Inl (HTTPException c d), db1)
      | (Inl e, db1) \<Rightarrow> (Inl (HTTPException 500 (Str e)), db1)
      | (Inr order_id, db1) \<Rightarrow> (Inr order_id, db1))"

text \<open>
  The route \<^verbatim>\<open>POST /checkout\<close>: FastAPI validates the body against
  \<^verbatim>\<open>CheckoutRequest\<close> and calls the handler only when no field is violated.
\<close>

definition post_checkout :: "oid \<Rightarrow> CheckoutRequest \<Rightarrow> database \<Rightarrow> (exn + string) \<times> database" where
  "post_checkout new body db =
     (case CheckoutRequest_errors body of
        [] \<Rightarrow> checkout new body db
      | e # es \<Rightarrow> (Inl (RequestValidationError (e # es)), db))"

subsection \<open>create_product and list_products\<close>

definition create_product :: "oid \<Rightarrow> Product \<Rightarrow> database \<Rightarrow> (exn + string) \<times> database" where
  "create_product new p db =
     (case create_document_product new p db of
        (Inl e, db1) \<Rightarrow> (Inl (HTTPException 500 (Str e)), db1)
      | (Inr pid, db1) \<Rightarrow> (Inr pid, db1))"

text \<open>
  The route \<^verbatim>\<open>POST /products\<close>: the body is validated against \<^verbatim>\<open>ProductCreate\<close>,
  which inherits the constraints of \<^verbatim>\<open>Product\<close>, before the handler is called.
\<close>

definition post_products :: "oid \<Rightarrow> Product \<Rightarrow> database \<Rightarrow> (exn + string) \<times> database" where
  "post_products new body db =
     (case Product_errors (Product.price body) (Product.warmth_rating body) of
        [] \<Rightarrow> create_product new body db
      | e # es \<Rightarrow> (Inl (RequestValidationError (e # es)), db))"

text \<open>
  \<^verbatim>\<open>d["id"] = str(d.pop("_id")); ProductResponse(**d)\<close>: \<^verbatim>\<open>title\<close> and
  \<^verbatim>\<open>price\<close> are required, the other fields take the schema's default when the key is
  absent, and the constraints of \<^verbatim>\<open>Product\<close> are checked.
\<close>

definition ProductResponse_errors :: "product_doc \<Rightarrow> string list" where
  "ProductResponse_errors d =
     (case product_doc.title d of None \<Rightarrow> [''title''] | Some _ \<Rightarrow> []) @
     (case product_doc.price d of None \<Rightarrow> [''price''] | Some pr \<Rightarrow> if pr \<ge> 0 then [] else [''price'']) @
     (case product_doc.warmth_rating d of
        Some (Some w) \<Rightarrow> if 1 \<le> w \<and> w \<le> 5 then [] else [''warmth_rating'']
      | _ \<Rightarrow> [])"

definition ProductResponse_init :: "oid \<times> product_doc \<Rightarrow> exn + ProductResponse" where
  "ProductResponse_init x =
     (case x of (i, d) \<Rightarrow>
        (case ProductResponse_errors d of
           [] \<Rightarrow> Inr \<lparr>Product.title = the (product_doc.title d),
                      Product.description = product_doc.description d,
                      Product.price = the (product_doc.price d),
                      Product.category = (case product_doc.category d of None \<Rightarrow> ''leggings'' | Some c \<Rightarrow> c),
                      Product.in_stock = (case product_doc.in_stock d of None \<Rightarrow> True | Some b \<Rightarrow> b),
                      Product.images = (case product_doc.images d of None \<Rightarrow> [] | Some l \<Rightarrow> l),
                      Product.colors = (case product_doc.colors d of None \<Rightarrow> [] | Some l \<Rightarrow> l),
                      Product.sizes = (case product_doc.sizes d of None \<Rightarrow> [] | Some l \<Rightarrow> l),
                      Product.featured = (case product_doc.featured d of None \<Rightarrow> False | Some b \<Rightarrow> b),
                      Product.warmth_rating = (case product_doc.warmth_rating d of None \<Rightarrow> Some 5 | Some w \<Rightarrow> w),
                      Product.fabric = product_doc.fabric d,
                      Product.sku = product_doc.sku d,
                      id' = str i\<rparr>
         | e # es \<Rightarrow> Inl (ValidationError ''ProductResponse'' (e # es))))"

text \<open>The loop \<^verbatim>\<open>for d in docs\<close> with the list \<^verbatim>\<open>items\<close> as accumulator \<open>acc\<close>.\<close>

fun list_loop :: "(oid \<times> product_doc) list \<Rightarrow> ProductResponse list \<Rightarrow> exn + ProductResponse list" where
  "list_loop [] acc = Inr acc"
| "list_loop (d # docs) acc =
     (case ProductResponse_init d of
        Inl e \<Rightarrow> Inl e
      | Inr r \<Rightarrow> list_loop docs (acc @ [r]))"

definition list_products :: "bool option \<Rightarrow> database \<Rightarrow> (exn + ProductResponse list) \<times> database" where
  "list_products feat db =
     (case get_documents_product feat db of
        (Inl e, db1) \<Rightarrow> (Inl (HTTPException 500 (Str e)), db1)
      | (Inr docs, db1) \<Rightarrow>
          (case list_loop docs [] of
             Inl e \<Rightarrow> (Inl (HTTPException 500 (Str e)), db1)
           | Inr acc \<Rightarrow> (Inr acc, db1)))"

section \<open>Notions used in the statements\<close>

text \<open>
  The product a cart line resolves to: the first document that
  \<^verbatim>\<open>find({"_id": ObjectId(item.product_id)})\<close> yields on the collection, when the
  identifier is well formed and such a document exists.
\<close>

definition resolve :: "database \<Rightarrow> CartItem \<Rightarrow> product_doc option" where
  "resolve db item =
     (case ObjectId (CartItem.product_id item) of
        Inl e \<Rightarrow> None
      | Inr i \<Rightarrow> next_iter (map snd (filter (\<lambda>(j, d). j = i) (product db))))"

text \<open>
  \<open>snapshot db item oi\<close>: the order item \<open>oi\<close> is the snapshot of the cart line
  \<open>item\<close>, with title and price of the product the line resolves to and the other
  fields of the line itself.
\<close>

definition snapshot :: "database \<Rightarrow> CartItem \<Rightarrow> OrderItem \<Rightarrow> bool" where
  "snapshot db item oi =
     (case resolve db item of
        None \<Rightarrow> False
      | Some prd \<Rightarrow>
          product_doc.title prd = Some (OrderItem.title oi) \<and>
          OrderItem.price oi = get_price prd \<and>
          OrderItem.product_id oi = CartItem.product_id item \<and>
          OrderItem.color oi = CartItem.color item \<and>
          OrderItem.size' oi = CartItem.size' item \<and>
          OrderItem.quantity oi = CartItem.quantity item \<and>
          0 \<le> OrderItem.price oi \<and> 1 \<le> OrderItem.quantity oi)"

text \<open>The resolved product's price times the quantity of the line.\<close>

definition line_total :: "database \<Rightarrow> CartItem \<Rightarrow> real" where
  "line_total db item =
     (case resolve db item of
        None \<Rightarrow> 0
      | Some prd \<Rightarrow> get_price prd * real_of_int (CartItem.quantity item))"

text \<open>
  A line that passes the loop body: it resolves, its quantity is within the range of a
  float, and the constructor of its order item finds no violated field.
\<close>

definition line_ok :: "database \<Rightarrow> CartItem \<Rightarrow> bool" where
  "line_ok db item =
     (case resolve db item of
        None \<Rightarrow> False
      | Some prd \<Rightarrow>
          int_to_float (CartItem.quantity item) = Inr (real_of_int (CartItem.quantity item)) \<and>
          OrderItem_errors (product_doc.title prd) (get_price prd) (CartItem.quantity item) = [])"

text \<open>A line whose resolved document has a \<^verbatim>\<open>price\<close> key.\<close>

definition priced :: "database \<Rightarrow> CartItem \<Rightarrow> bool" where
  "priced db item =
     (case resolve db item of
        None \<Rightarrow> False
      | Some prd \<Rightarrow> (case product_doc.price prd of None \<Rightarrow> False | Some p \<Rightarrow> True))"

text \<open>A sequence of store calls that are all product lookups: no insert, no listing.\<close>

definition only_finds :: "db_call list \<Rightarrow> bool" where
  "only_finds cs = list_all (\<lambda>c. case c of Find_product i \<Rightarrow> True | _ \<Rightarrow> False) cs"

subsection \<open>Example data\<close>

definition doc :: "string \<Rightarrow> real option \<Rightarrow> product_doc" where
  "doc t p =
     \<lparr>title = Some t, description = None, price = p, category = None, in_stock = None,
      images = None, colors = None, sizes = None, featured = None, warmth_rating = None,
      fabric = None, sku = None\<rparr>"

definition oid_a :: oid where "oid_a = ''aaaaaaaaaaaaaaaaaaaaaaaa''"
definition oid_b :: oid where "oid_b = ''bbbbbbbbbbbbbbbbbbbbbbbb''"
definition oid_c :: oid where "oid_c = ''cccccccccccccccccccccccc''"
definition oid_d :: oid where "oid_d = ''dddddddddddddddddddddddd''"
definition oid_e :: oid where "oid_e = ''eeeeeeeeeeeeeeeeeeeeeeee''"

text \<open>
  A store with three products: \<open>oid_a\<close> costs 50, the document of \<open>oid_b\<close> has
  no \<^verbatim>\<open>price\<close> key, \<open>oid_d\<close> costs 30. No product has the identifier
  \<open>oid_c\<close>; \<open>oid_e\<close> is the identifier the store assigns next.
\<close>

definition store :: database where
  "store =
     \<lparr>product = [(oid_a, doc ''Alpine'' (Some 50)), (oid_b, doc ''Sample'' None),
                 (oid_d, doc ''Dune'' (Some 30))],
      order = [], reachable = True, calls = []\<rparr>"

text \<open>The same store without the document that lacks a price.\<close>

definition catalog :: database where
  "catalog = store\<lparr>product := [(oid_a, doc ''Alpine'' (Some 50)), (oid_d, doc ''Dune'' (Some 30))]\<rparr>"

definition line :: "string \<Rightarrow> int \<Rightarrow> CartItem" where
  "line pid q = \<lparr>product_id = pid, quantity = q, color = Some ''black'', size' = Some ''M''\<rparr>"

definition request :: "CartItem list \<Rightarrow> CheckoutRequest" where
  "request its =
     \<lparr>items = its, customer_name = ''Ada'', customer_email = ''ada@example.org'',
      shipping_address = ''1 Main St'', notes' = None\<rparr>"

definition leggings :: "real \<Rightarrow> int option \<Rightarrow> Product" where
  "leggings p w =
     \<lparr>Product.title = ''Fleece'', Product.description = None, Product.price = p, Product.category = ''leggings'',
      Product.in_stock = True, Product.images = [], Product.colors = [''black''], Product.sizes = [''M''], Product.featured = False,
      Product.warmth_rating = w, Product.fabric = None, Product.sku = None\<rparr>"

section \<open>The checkout loop\<close>

lemma find_product_reachable:
  "reachable db \<Longrightarrow> find_product i db =
     (Inr (map snd (filter (\<lambda>(j, d). j = i) (product db))), db\<lparr>calls := calls db @ [Find_product i]\<rparr>)"
  by (simp add: find_product_def Let_def)

lemma find_product_unreachable:
  "\<not> reachable db \<Longrightarrow> find_product i db = (Inl StorageError, db\<lparr>calls := calls db @ [Find_product i]\<rparr>)"
  by (simp add: find_product_def Let_def)

lemma resolve_cong: "product db1 = product db \<Longrightarrow> resolve db1 item = resolve db item"
  by (cases "ObjectId (CartItem.product_id item)") (simp_all add: resolve_def)

lemma int_to_float_cases:
  "int_to_float n = Inl OverflowError \<or> int_to_float n = Inr (real_of_int n)"
  by (simp add: int_to_float_def)

text \<open>The ways one round of the loop can go.\<close>

lemma checkout_loop_Cons_cases:
  assumes "checkout_loop (item # rest) acc s db = (r, db')"
  obtains
    (invalid) e where "ObjectId (CartItem.product_id item) = Inl e" "r = Inl e" "db' = db"
  | (unreachable) i where "ObjectId (CartItem.product_id item) = Inr i" "\<not> reachable db"
      "r = Inl StorageError" "db' = db\<lparr>calls := calls db @ [Find_product i]\<rparr>"
  | (missing) i where "ObjectId (CartItem.product_id item) = Inr i" "reachable db"
      "next_iter (map snd (filter (\<lambda>(j, d). j = i) (product db))) = None"
      "r = Inl (HTTPException 404 (Message (''Product '' @ CartItem.product_id item @ '' not found'')))"
      "db' = db\<lparr>calls := calls db @ [Find_product i]\<rparr>"
  | (overflow) i prd where "ObjectId (CartItem.product_id item) = Inr i" "reachable db"
      "next_iter (map snd (filter (\<lambda>(j, d). j = i) (product db))) = Some prd"
      "int_to_float (CartItem.quantity item) = Inl OverflowError"
      "r = Inl OverflowError" "db' = db\<lparr>calls := calls db @ [Find_product i]\<rparr>"
  | (refused) i prd e where "ObjectId (CartItem.product_id item) = Inr i" "reachable db"
      "next_iter (map snd (filter (\<lambda>(j, d). j = i) (product db))) = Some prd"
      "OrderItem_init (CartItem.product_id item) (product_doc.title prd) (get_price prd)
         (CartItem.color item) (CartItem.size' item) (CartItem.quantity item) = Inl e"
      "r = Inl e" "db' = db\<lparr>calls := calls db @ [Find_product i]\<rparr>"
  | (continue) i prd oi where "ObjectId (CartItem.product_id item) = Inr i" "reachable db"
      "next_iter (map snd (filter (\<lambda>(j, d). j = i) (product db))) = Some prd"
      "OrderItem_init (CartItem.product_id item) (product_doc.title prd) (get_price prd)
         (CartItem.color item) (CartItem.size' item) (CartItem.quantity item) = Inr oi"
      "checkout_loop rest (acc @ [oi]) (s + get_price prd * real_of_int (CartItem.quantity item))
         (db\<lparr>calls := calls db @ [Find_product i]\<rparr>) = (r, db')"
      "int_to_float (CartItem.quantity item) = Inr (real_of_int (CartItem.quantity item))"
proof (cases "ObjectId (CartItem.product_id item)")
  case (Inl e)
  with assms have "r = Inl e" "db' = db" by simp_all
  with Inl show ?thesis by (rule invalid)
next
  case (Inr i)
  note i = this
  show ?thesis
  proof (cases "reachable db")
    case False
    with assms i have "r = Inl StorageError" "db' = db\<lparr>calls := calls db @ [Find_product i]\<rparr>"
      by (simp_all add: find_product_unreachable)
    with i False show ?thesis by (rule unreachable)
  next
    case True
    show ?thesis
    proof (cases "next_iter (map snd (filter (\<lambda>(j, d). j = i) (product db)))")
      case None
      with assms i True have
        "r = Inl (HTTPException 404 (Message (''Product '' @ CartItem.product_id item @ '' not found'')))"
        "db' = db\<lparr>calls := calls db @ [Find_product i]\<rparr>"
        by (simp_all add: find_product_reachable)
      with i True None show ?thesis by (rule missing)
    next
      case (Some prd)
      from int_to_float_cases [of "CartItem.quantity item"] show ?thesis
      proof
        assume ov: "int_to_float (CartItem.quantity item) = Inl OverflowError"
        with assms i True Some have
          "r = Inl OverflowError" "db' = db\<lparr>calls := calls db @ [Find_product i]\<rparr>"
          by (simp_all add: find_product_reachable Let_def)
        with i True Some ov show ?thesis by (rule overflow)
      next
        assume q: "int_to_float (CartItem.quantity item) = Inr (real_of_int (CartItem.quantity item))"
        show ?thesis
        proof (cases "OrderItem_init (CartItem.product_id item) (product_doc.title prd) (get_price prd)
               (CartItem.color item) (CartItem.size' item) (CartItem.quantity item)")
          case (Inl e)
          with assms i True Some q have
            "r = Inl e" "db' = db\<lparr>calls := calls db @ [Find_product i]\<rparr>"
            by (simp_all add: find_product_reachable Let_def)
          with i True Some Inl show ?thesis by (rule refused)
        next
          case oi: (Inr oi)
          with assms i True Some q have
            "checkout_loop rest (acc @ [oi]) (s + get_price prd * real_of_int (CartItem.quantity item))
               (db\<lparr>calls := calls db @ [Find_product i]\<rparr>) = (r, db')"
            by (simp add: find_product_reachable Let_def)
          with i True Some oi show ?thesis using q by (rule continue)
        qed
      qed
    qed
  qed
qed

text \<open>A round in which nothing is raised goes on with the rest of the cart.\<close>

lemma checkout_loop_Cons_continue:
  assumes "ObjectId (CartItem.product_id item) = Inr i" and "reachable db"
    and "next_iter (map snd (filter (\<lambda>(j, d). j = i) (product db))) = Some prd"
    and "int_to_float (CartItem.quantity item) = Inr (real_of_int (CartItem.quantity item))"
    and "OrderItem_init (CartItem.product_id item) (product_doc.title prd) (get_price prd)
           (CartItem.color item) (CartItem.size' item) (CartItem.quantity item) = Inr oi"
  shows "checkout_loop (item # rest) acc s db =
           checkout_loop rest (acc @ [oi]) (s + get_price prd * real_of_int (CartItem.quantity item))
             (db\<lparr>calls := calls db @ [Find_product i]\<rparr>)"
  using assms by (simp add: find_product_reachable Let_def)

lemma OrderItem_errors_Nil:
  "(OrderItem_errors t pr q = []) = ((\<exists>x. t = Some x) \<and> 0 \<le> pr \<and> 1 \<le> q)"
  by (cases t) (simp_all add: OrderItem_errors_def)

lemma OrderItem_init_Inr:
  "OrderItem_init pid t pr c sz q = Inr oi \<Longrightarrow>
     t = Some (OrderItem.title oi) \<and> OrderItem.price oi = pr \<and> OrderItem.product_id oi = pid \<and>
     OrderItem.color oi = c \<and> OrderItem.size' oi = sz \<and> OrderItem.quantity oi = q \<and>
     0 \<le> pr \<and> 1 \<le> q \<and> OrderItem_errors t pr q = []"
proof -
  assume a: "OrderItem_init pid t pr c sz q = Inr oi"
  then have e: "OrderItem_errors t pr q = []"
    by (cases "OrderItem_errors t pr q") (simp_all add: OrderItem_init_def)
  then obtain x where x: "t = Some x" and pr: "0 \<le> pr" and q: "1 \<le> q"
    by (auto simp: OrderItem_errors_Nil)
  from a e x have "oi = \<lparr>OrderItem.product_id = pid, OrderItem.title = x, OrderItem.price = pr, OrderItem.color = c, OrderItem.size' = sz, OrderItem.quantity = q\<rparr>"
    by (simp add: OrderItem_init_def)
  with x pr q e show ?thesis by simp
qed

lemma snapshot_cong: "product db1 = product db \<Longrightarrow> snapshot db1 = snapshot db"
  by (simp add: snapshot_def fun_eq_iff resolve_cong [of db1 db])

lemma line_total_cong: "product db1 = product db \<Longrightarrow> line_total db1 = line_total db"
  by (simp add: line_total_def fun_eq_iff resolve_cong [of db1 db])

lemma line_ok_cong: "product db1 = product db \<Longrightarrow> line_ok db1 = line_ok db"
  by (simp add: line_ok_def fun_eq_iff resolve_cong [of db1 db])

lemma checkout_loop_Inr:
  "checkout_loop its acc s db = (Inr (ois, st), db') \<Longrightarrow>
     \<exists>new. ois = acc @ new \<and> list_all2 (snapshot db) its new \<and>
           st = s + sum_list (map (line_total db) its)"
proof (induction its arbitrary: acc s db)
  case Nil
  then show ?case by simp
next
  case (Cons item rest)
  let ?q = "real_of_int (CartItem.quantity item)"
  from Cons.prems show ?case
  proof (cases rule: checkout_loop_Cons_cases)
    case (continue i prd oi)
    let ?db1 = "db\<lparr>calls := calls db @ [Find_product i]\<rparr>"
    have p1: "product ?db1 = product db" by simp
    from continue(1,3) have res: "resolve db item = Some prd"
      by (simp add: resolve_def)
    from Cons.IH [OF continue(5)] obtain new where
      n1: "ois = (acc @ [oi]) @ new" and n2: "list_all2 (snapshot ?db1) rest new" and
      n3: "st = s + get_price prd * ?q + sum_list (map (line_total ?db1) rest)"
      by blast
    have snap: "snapshot db item oi"
      using OrderItem_init_Inr [OF continue(4)] res by (simp add: snapshot_def)
    have lt: "line_total db item = get_price prd * ?q"
      using res by (simp add: line_total_def)
    from n1 have a: "ois = acc @ (oi # new)" by simp
    from n2 snap have b: "list_all2 (snapshot db) (item # rest) (oi # new)"
      by (simp add: snapshot_cong [OF p1])
    from n3 lt have c: "st = s + sum_list (map (line_total db) (item # rest))"
      by (simp add: line_total_cong [OF p1])
    from a b c show ?thesis by blast
  qed simp_all
qed

lemma checkout_loop_total:
  "reachable db \<Longrightarrow> \<forall>item \<in> set its. line_ok db item \<Longrightarrow>
     \<exists>ois st db'. checkout_loop its acc s db = (Inr (ois, st), db')"
proof (induction its arbitrary: acc s db)
  case Nil
  then show ?case by simp
next
  case (Cons item rest)
  let ?q = "real_of_int (CartItem.quantity item)"
  from Cons.prems have ok: "line_ok db item" by simp
  then obtain prd where res: "resolve db item = Some prd"
    and fl: "int_to_float (CartItem.quantity item) = Inr ?q"
    and noerr: "OrderItem_errors (product_doc.title prd) (get_price prd) (CartItem.quantity item) = []"
    by (cases "resolve db item") (simp_all add: line_ok_def)
  from res obtain i where i: "ObjectId (CartItem.product_id item) = Inr i"
    by (cases "ObjectId (CartItem.product_id item)") (simp_all add: resolve_def)
  with res have ni: "next_iter (map snd (filter (\<lambda>(j, d). j = i) (product db))) = Some prd"
    by (simp add: resolve_def)
  let ?db1 = "db\<lparr>calls := calls db @ [Find_product i]\<rparr>"
  from noerr obtain oi where
    oi: "OrderItem_init (CartItem.product_id item) (product_doc.title prd) (get_price prd)
           (CartItem.color item) (CartItem.size' item) (CartItem.quantity item) = Inr oi"
    by (simp add: OrderItem_init_def)
  have re1: "reachable ?db1" using Cons.prems(1) by simp
  have p1: "product ?db1 = product db" by simp
  from Cons.prems(2) have ok1: "\<forall>item \<in> set rest. line_ok ?db1 item"
    by (simp add: line_ok_cong [OF p1])
  from Cons.IH [OF re1 ok1] obtain ois st db' where
    r: "checkout_loop rest (acc @ [oi]) (s + get_price prd * ?q) ?db1 = (Inr (ois, st), db')"
    by blast
  with checkout_loop_Cons_continue [OF i Cons.prems(1) ni fl oi]
  have "checkout_loop (item # rest) acc s db = (Inr (ois, st), db')" by simp
  then show ?case by blast
qed

lemma Order_init_Inr:
  "Order_init its cn ce sa st sc tt stat nts = Inr ord \<Longrightarrow>
     Order.items ord = its \<and> Order.customer_name ord = cn \<and> Order.customer_email ord = ce \<and>
     Order.shipping_address ord = sa \<and> Order.subtotal ord = st \<and> Order.shipping_cost ord = sc \<and>
     Order.total ord = tt \<and> Order.status ord = stat \<and> Order.notes' ord = nts \<and>
     Order_errors st sc tt = []"
proof -
  assume a: "Order_init its cn ce sa st sc tt stat nts = Inr ord"
  then have e: "Order_errors st sc tt = []"
    by (cases "Order_errors st sc tt") (simp_all add: Order_init_def)
  with a have "ord = \<lparr>Order.items = its, Order.customer_name = cn, Order.customer_email = ce,
      Order.shipping_address = sa, Order.subtotal = st, Order.shipping_cost = sc, Order.total = tt,
      Order.status = stat, Order.notes' = nts\<rparr>"
    by (simp add: Order_init_def)
  with e show ?thesis by simp
qed

lemma checkout_order_Inr:
  assumes "checkout_order payload db = (Inr ord, db1)"
  shows "\<exists>st. checkout_loop (CheckoutRequest.items payload) [] 0 db = (Inr (Order.items ord, st), db1) \<and>
           Order.subtotal ord = st \<and>
           Order.shipping_cost ord = (if 100 \<le> st then 0 else 10) \<and>
           Order.total ord = st + (if 100 \<le> st then 0 else 10) \<and>
           Order.status ord = ''pending'' \<and>
           Order.customer_name ord = CheckoutRequest.customer_name payload \<and>
           Order.customer_email ord = CheckoutRequest.customer_email payload \<and>
           Order.shipping_address ord = CheckoutRequest.shipping_address payload \<and>
           Order.notes' ord = CheckoutRequest.notes' payload"
proof -
  obtain r db2 where l: "checkout_loop (CheckoutRequest.items payload) [] 0 db = (r, db2)"
    by (cases "checkout_loop (CheckoutRequest.items payload) [] 0 db")
  show ?thesis
  proof (cases r)
    case (Inl e)
    with assms l show ?thesis by (simp add: checkout_order_def)
  next
    case (Inr x)
    obtain ois st where x: "x = (ois, st)" by (cases x)
    from assms l Inr x have db: "db2 = db1" and
      oi: "Order_init ois (CheckoutRequest.customer_name payload)
             (CheckoutRequest.customer_email payload) (CheckoutRequest.shipping_address payload)
             st (if 100 \<le> st then 0 else 10) (st + (if 100 \<le> st then 0 else 10)) ''pending''
             (CheckoutRequest.notes' payload) = Inr ord"
      by (simp_all add: checkout_order_def Let_def)
    from Order_init_Inr [OF oi] l Inr x db show ?thesis by simp
  qed
qed

lemma checkout_order_snapshot:
  assumes "checkout_order payload db = (Inr ord, db1)"
  shows "list_all2 (snapshot db) (CheckoutRequest.items payload) (Order.items ord) \<and>
         Order.subtotal ord = sum_list (map (line_total db) (CheckoutRequest.items payload))"
proof -
  from checkout_order_Inr [OF assms] obtain st where
    l: "checkout_loop (CheckoutRequest.items payload) [] 0 db = (Inr (Order.items ord, st), db1)" and
    st: "Order.subtotal ord = st" by blast
  from checkout_loop_Inr [OF l] st show ?thesis by simp
qed

lemma only_finds_Cons: "only_finds (Find_product i # cs) = only_finds cs"
  by (simp add: only_finds_def)

lemma only_finds_Nil: "only_finds []"
  by (simp add: only_finds_def)

lemma checkout_loop_frame:
  "checkout_loop its acc s db = (r, db') \<Longrightarrow>
     product db' = product db \<and> order db' = order db \<and> reachable db' = reachable db \<and>
     (\<exists>cs. calls db' = calls db @ cs \<and> only_finds cs)"
proof (induction its arbitrary: acc s db)
  case Nil
  then show ?case by (simp add: only_finds_Nil)
next
  case (Cons item rest)
  have one: "\<And>i. calls db @ [Find_product i] = calls db @ [Find_product i] \<and> only_finds [Find_product i]"
    by (simp add: only_finds_def)
  from Cons.prems show ?case
  proof (cases rule: checkout_loop_Cons_cases)
    case (invalid e)
    then show ?thesis by (simp add: only_finds_Nil)
  next
    case (unreachable i)
    with one [of i] show ?thesis by auto
  next
    case (missing i)
    with one [of i] show ?thesis by auto
  next
    case (overflow i prd)
    with one [of i] show ?thesis by auto
  next
    case (refused i prd e)
    with one [of i] show ?thesis by auto
  next
    case (continue i prd oi)
    from Cons.IH [OF continue(5)] obtain cs where
      f: "product db' = product db" "order db' = order db" "reachable db' = reachable db" and
      c: "calls db' = (calls db @ [Find_product i]) @ cs" "only_finds cs"
      by auto
    from c have "calls db' = calls db @ (Find_product i # cs)" "only_finds (Find_product i # cs)"
      by (simp_all add: only_finds_Cons)
    with f show ?thesis by blast
  qed
qed

text \<open>The exceptions that leave the loop.\<close>

lemma checkout_loop_Inl:
  "checkout_loop its acc s db = (Inl e, db') \<Longrightarrow>
     (\<exists>pid. e = HTTPException 404 (Message (''Product '' @ pid @ '' not found''))) \<or>
     e = StorageError \<or> e = OverflowError \<or> (\<exists>x. e = InvalidId x) \<or>
     (\<exists>fs. e = ValidationError ''OrderItem'' fs)"
proof (induction its arbitrary: acc s db)
  case Nil
  then show ?case by simp
next
  case (Cons item rest)
  from Cons.prems show ?case
  proof (cases rule: checkout_loop_Cons_cases)
    case (invalid e')
    then show ?thesis by (auto simp: ObjectId_def split: if_splits)
  next
    case (unreachable i)
    then show ?thesis by simp
  next
    case (missing i)
    then show ?thesis by blast
  next
    case (overflow i prd)
    then show ?thesis by simp
  next
    case (refused i prd e')
    then show ?thesis by (auto simp: OrderItem_init_def split: list.splits)
  next
    case (continue i prd oi)
    from Cons.IH [OF continue(5)] show ?thesis .
  qed
qed

section \<open>Properties of checkout\<close>

lemmas example_defs =
  doc_def oid_a_def oid_b_def oid_c_def oid_d_def oid_e_def store_def catalog_def line_def request_def leggings_def

lemmas handler_defs =
  checkout_def checkout_body_def checkout_order_def post_checkout_def
  CheckoutRequest_errors_def CartItem_errors_def
  ObjectId_def is_hex_def lower_hex_def str_def find_product_def next_iter_def get_price_def
  int_to_float_def
  OrderItem_init_def OrderItem_errors_def Order_init_def Order_errors_def
  create_document_order_def Let_def

text \<open>
  C1: whenever checkout constructs an order, its shipping cost is 0 if and only if its
  subtotal is at least 100, and is 10 otherwise; a subtotal of exactly 100 ships free.
\<close>

theorem shipping_cost_threshold:
  assumes "checkout_order payload db = (Inr ord, db1)"
  shows "(Order.shipping_cost ord = 0 \<longleftrightarrow> 100 \<le> Order.subtotal ord) \<and>
         (\<not> 100 \<le> Order.subtotal ord \<longrightarrow> Order.shipping_cost ord = 10) \<and>
         (Order.subtotal ord = 100 \<longrightarrow> Order.shipping_cost ord = 0)"
proof -
  from checkout_order_Inr [OF assms] have
    "Order.shipping_cost ord = (if 100 \<le> Order.subtotal ord then 0 else 10)" by auto
  then show ?thesis by simp
qed

theorem shipping_cost_threshold_witness:
  "\<exists>ord. fst (checkout_order (request [line oid_a 2]) store) = Inr ord \<and>
         Order.subtotal ord = 100 \<and> Order.shipping_cost ord = 0"
proof -
  obtain r d where e: "checkout_order (request [line oid_a 2]) store = (r, d)"
    by (cases "checkout_order (request [line oid_a 2]) store")
  then obtain ord where r: "r = Inr ord" and s: "Order.subtotal ord = 100"
    by (auto simp: handler_defs example_defs)
  from shipping_cost_threshold [OF e [unfolded r]] s have "Order.shipping_cost ord = 0" by simp
  with e r s show ?thesis by simp
qed

text \<open>
  C4: every order that checkout constructs satisfies total = subtotal + shipping cost.
\<close>

theorem total_is_subtotal_plus_shipping:
  assumes "checkout_order payload db = (Inr ord, db1)"
  shows "Order.total ord = Order.subtotal ord + Order.shipping_cost ord"
  using checkout_order_Inr [OF assms] by auto

theorem total_is_subtotal_plus_shipping_witness:
  "\<exists>ord. fst (checkout_order (request [line oid_a 1]) store) = Inr ord \<and>
         Order.subtotal ord = 50 \<and> Order.shipping_cost ord = 10 \<and> Order.total ord = 60"
proof -
  obtain r d where e: "checkout_order (request [line oid_a 1]) store = (r, d)"
    by (cases "checkout_order (request [line oid_a 1]) store")
  then obtain ord where r: "r = Inr ord" and s: "Order.subtotal ord = 50"
    and c: "Order.shipping_cost ord = 10"
    by (auto simp: handler_defs example_defs)
  from total_is_subtotal_plus_shipping [OF e [unfolded r]] s c have "Order.total ord = 60" by simp
  with e r s c show ?thesis by simp
qed

lemma snapshot_resolves: "snapshot db item oi \<Longrightarrow> resolve db item \<noteq> None"
  by (cases "resolve db item") (simp_all add: snapshot_def)

lemma list_all2_left: "list_all2 P xs ys \<Longrightarrow> x \<in> set xs \<Longrightarrow> \<exists>y. P x y"
  by (induction rule: list_all2_induct) auto

text \<open>
  C2: when checkout constructs an order from a cart of N lines, every line resolves and
  the subtotal is the sum over the N lines of the resolved product's price times the
  quantity of the line.
\<close>

theorem subtotal_is_sum_of_lines:
  assumes "checkout_order payload db = (Inr ord, db1)"
  shows "(\<forall>item \<in> set (CheckoutRequest.items payload). resolve db item \<noteq> None) \<and>
         Order.subtotal ord =
           (\<Sum>item \<leftarrow> CheckoutRequest.items payload. line_total db item)"
proof -
  from checkout_order_snapshot [OF assms] have
    la: "list_all2 (snapshot db) (CheckoutRequest.items payload) (Order.items ord)" and
    su: "Order.subtotal ord = sum_list (map (line_total db) (CheckoutRequest.items payload))"
    by simp_all
  have "resolve db item \<noteq> None" if "item \<in> set (CheckoutRequest.items payload)" for item
  proof -
    from list_all2_left [OF la that] obtain oi where "snapshot db item oi" ..
    then show ?thesis by (rule snapshot_resolves)
  qed
  with su show ?thesis by simp
qed

theorem subtotal_is_sum_of_lines_witness:
  "\<exists>ord. fst (checkout_order (request [line oid_d 2, line oid_a 1]) store) = Inr ord \<and>
         line_total store (line oid_d 2) = 60 \<and> line_total store (line oid_a 1) = 50 \<and>
         Order.subtotal ord = 110"
proof -
  let ?req = "request [line oid_d 2, line oid_a 1]"
  obtain r d where e: "checkout_order ?req store = (r, d)"
    by (cases "checkout_order ?req store")
  then obtain ord where r: "r = Inr ord"
    by (auto simp: handler_defs example_defs)
  have l: "line_total store (line oid_d 2) = 60" "line_total store (line oid_a 1) = 50"
    by (simp_all add: line_total_def resolve_def handler_defs example_defs)
  from subtotal_is_sum_of_lines [OF e [unfolded r]] l have "Order.subtotal ord = 110"
    by (simp add: request_def)
  with e r l show ?thesis by simp
qed

text \<open>
  C5: an order that checkout constructs has status "pending" and one order item per cart
  line, in the same order; the i-th order item takes product id, color, size and quantity
  from the i-th cart line, and title and price from the product that line resolves to.
\<close>

theorem order_items_are_snapshots:
  assumes "checkout_order payload db = (Inr ord, db1)"
  shows "Order.status ord = ''pending'' \<and>
         length (Order.items ord) = length (CheckoutRequest.items payload) \<and>
         (\<forall>i < length (CheckoutRequest.items payload).
            \<exists>prd. resolve db (CheckoutRequest.items payload ! i) = Some prd \<and>
              OrderItem.product_id (Order.items ord ! i) = CartItem.product_id (CheckoutRequest.items payload ! i) \<and>
              OrderItem.color (Order.items ord ! i) = CartItem.color (CheckoutRequest.items payload ! i) \<and>
              OrderItem.size' (Order.items ord ! i) = CartItem.size' (CheckoutRequest.items payload ! i) \<and>
              OrderItem.quantity (Order.items ord ! i) = CartItem.quantity (CheckoutRequest.items payload ! i) \<and>
              product_doc.title prd = Some (OrderItem.title (Order.items ord ! i)) \<and>
              OrderItem.price (Order.items ord ! i) = get_price prd)"
proof -
  from checkout_order_Inr [OF assms] have st: "Order.status ord = ''pending''" by blast
  from checkout_order_snapshot [OF assms]
  have la: "list_all2 (snapshot db) (CheckoutRequest.items payload) (Order.items ord)" by blast
  then have len: "length (Order.items ord) = length (CheckoutRequest.items payload)"
    by (simp add: list_all2_lengthD)
  have "\<exists>prd. resolve db (CheckoutRequest.items payload ! i) = Some prd \<and>
              OrderItem.product_id (Order.items ord ! i) = CartItem.product_id (CheckoutRequest.items payload ! i) \<and>
              OrderItem.color (Order.items ord ! i) = CartItem.color (CheckoutRequest.items payload ! i) \<and>
              OrderItem.size' (Order.items ord ! i) = CartItem.size' (CheckoutRequest.items payload ! i) \<and>
              OrderItem.quantity (Order.items ord ! i) = CartItem.quantity (CheckoutRequest.items payload ! i) \<and>
              product_doc.title prd = Some (OrderItem.title (Order.items ord ! i)) \<and>
              OrderItem.price (Order.items ord ! i) = get_price prd"
    if "i < length (CheckoutRequest.items payload)" for i
  proof -
    from la that have sn: "snapshot db (CheckoutRequest.items payload ! i) (Order.items ord ! i)"
      by (rule list_all2_nthD)
    then obtain prd where "resolve db (CheckoutRequest.items payload ! i) = Some prd"
      by (cases "resolve db (CheckoutRequest.items payload ! i)") (simp_all add: snapshot_def)
    with sn show ?thesis by (simp add: snapshot_def)
  qed
  with st len show ?thesis by blast
qed

theorem order_items_are_snapshots_witness:
  "\<exists>ord. fst (checkout_order (request [line oid_d 3]) store) = Inr ord \<and>
         Order.status ord = ''pending'' \<and>
         map OrderItem.title (Order.items ord) = [''Dune''] \<and>
         map OrderItem.price (Order.items ord) = [30] \<and>
         map OrderItem.quantity (Order.items ord) = [3] \<and>
         map OrderItem.color (Order.items ord) = [Some ''black'']"
proof -
  let ?req = "request [line oid_d 3]"
  obtain r d where e: "checkout_order ?req store = (r, d)"
    by (cases "checkout_order ?req store")
  then obtain ord where r: "r = Inr ord"
    by (auto simp: handler_defs example_defs)
  have res: "resolve store (line oid_d 3) = Some (doc ''Dune'' (Some 30))"
    by (simp add: resolve_def handler_defs example_defs)
  from order_items_are_snapshots [OF e [unfolded r]] res
  have "Order.status ord = ''pending''" "length (Order.items ord) = 1"
    "OrderItem.title (Order.items ord ! 0) = ''Dune''"
    "OrderItem.price (Order.items ord ! 0) = 30"
    "OrderItem.quantity (Order.items ord ! 0) = 3"
    "OrderItem.color (Order.items ord ! 0) = Some ''black''"
    by (simp_all add: request_def line_def doc_def get_price_def)
  moreover from this(2) obtain oi where "Order.items ord = [oi]"
    by (cases "Order.items ord") simp_all
  ultimately show ?thesis using e r by simp
qed

text \<open>
  C8, as amended: an order that checkout constructs has exactly one order item per cart
  line, so its list of items is empty exactly when the cart is empty. An empty cart is
  accepted and yields an order with no item.
\<close>

theorem order_items_empty_iff_cart_empty:
  assumes "checkout_order payload db = (Inr ord, db1)"
  shows "length (Order.items ord) = length (CheckoutRequest.items payload) \<and>
         (Order.items ord = [] \<longleftrightarrow> CheckoutRequest.items payload = [])"
proof -
  from checkout_order_snapshot [OF assms]
  have "length (CheckoutRequest.items payload) = length (Order.items ord)"
    by (auto dest: list_all2_lengthD)
  then show ?thesis by (metis length_0_conv)
qed

theorem order_items_empty_iff_cart_empty_witness:
  "\<exists>ord. fst (checkout_order (request [line oid_a 1, line oid_b 1]) store) = Inr ord \<and>
         length (Order.items ord) = 2 \<and> Order.items ord \<noteq> []"
proof -
  let ?req = "request [line oid_a 1, line oid_b 1]"
  obtain r d where e: "checkout_order ?req store = (r, d)"
    by (cases "checkout_order ?req store")
  then obtain ord where r: "r = Inr ord"
    by (auto simp: handler_defs example_defs)
  from order_items_empty_iff_cart_empty [OF e [unfolded r]]
  have "length (Order.items ord) = 2" "Order.items ord \<noteq> []"
    by (simp_all add: request_def)
  with e r show ?thesis by simp
qed

text \<open>
  C8 as stated fails: the checkout of an empty cart succeeds and persists an order whose
  list of items is empty.
\<close>

theorem empty_cart_counterexample:
  "fst (checkout oid_e (request []) store) = Inr oid_e \<and>
   map fst (order (snd (checkout oid_e (request []) store))) = [oid_e] \<and>
   map (\<lambda>x. Order.items (snd x)) (order (snd (checkout oid_e (request []) store))) = [[]]"
  by (simp add: handler_defs example_defs)

lemma resolve_NoneD:
  "resolve db item = None \<Longrightarrow> ObjectId (CartItem.product_id item) = Inr i \<Longrightarrow>
     next_iter (map snd (filter (\<lambda>(j, d). j = i) (product db))) = None"
  by (simp add: resolve_def)

lemma calls_update_product: "product (db\<lparr>calls := c\<rparr>) = product db"
  by simp

lemma checkout_loop_unresolvable:
  "resolve db item = None \<Longrightarrow> \<exists>e db'. checkout_loop (pre @ item # post) acc s db = (Inl e, db')"
proof (induction pre arbitrary: acc s db)
  case Nil
  obtain r db' where l: "checkout_loop (item # post) acc s db = (r, db')"
    by (cases "checkout_loop (item # post) acc s db")
  then have "\<exists>e. r = Inl e"
  proof (cases rule: checkout_loop_Cons_cases)
    case (refused i prd e)
    with resolve_NoneD [OF Nil] show ?thesis by simp
  next
    case (continue i prd oi)
    with resolve_NoneD [OF Nil] show ?thesis by simp
  qed simp_all
  with l show ?case by auto
next
  case (Cons p ps)
  obtain r db' where l: "checkout_loop (p # (ps @ item # post)) acc s db = (r, db')"
    by (cases "checkout_loop (p # (ps @ item # post)) acc s db")
  then have "\<exists>e. r = Inl e"
  proof (cases rule: checkout_loop_Cons_cases)
    case (continue i prd oi)
    have "resolve (db\<lparr>calls := calls db @ [Find_product i]\<rparr>) item = None"
      using Cons.prems by (simp add: resolve_cong [OF calls_update_product])
    from Cons.IH [OF this, of "acc @ [oi]" "s + get_price prd * real_of_int (CartItem.quantity p)"]
    obtain e db'' where
      "checkout_loop (ps @ item # post) (acc @ [oi])
         (s + get_price prd * real_of_int (CartItem.quantity p))
         (db\<lparr>calls := calls db @ [Find_product i]\<rparr>) = (Inl e, db'')"
      by blast
    with continue(5) show ?thesis by auto
  qed simp_all
  with l show ?case by auto
qed

lemma checkout_order_Inl:
  "checkout_loop (CheckoutRequest.items payload) [] 0 db = (Inl e, db1) \<Longrightarrow>
     checkout_order payload db = (Inl e, db1)"
  by (simp add: checkout_order_def)

lemma checkout_Inl:
  "checkout_order payload db = (Inl e, db1) \<Longrightarrow>
     checkout new payload db =
       (Inl (case e of HTTPException c d \<Rightarrow> HTTPException c d | _ \<Rightarrow> HTTPException 500 (Str e)), db1)"
  by (cases e) (simp_all add: checkout_def checkout_body_def)

text \<open>
  Whatever makes a line unresolvable, the checkout of a cart that holds such a line
  fails, writes nothing and makes no call on the store other than product lookups.
\<close>

lemma unresolvable_line_never_persists:
  assumes "CheckoutRequest.items payload = pre @ item # post"
    and "resolve db item = None"
  shows "\<exists>c d db'. checkout new payload db = (Inl (HTTPException c d), db') \<and>
           order db' = order db \<and> product db' = product db \<and>
           (\<exists>cs. calls db' = calls db @ cs \<and> only_finds cs)"
proof -
  from checkout_loop_unresolvable [OF assms(2)] assms(1) obtain e db' where
    l: "checkout_loop (CheckoutRequest.items payload) [] 0 db = (Inl e, db')"
    by metis
  note fr = checkout_loop_frame [OF l]
  note co = checkout_Inl [OF checkout_order_Inl [OF l], of new]
  let ?e = "case e of HTTPException c d \<Rightarrow> HTTPException c d | _ \<Rightarrow> HTTPException 500 (Str e)"
  obtain c d where "?e = HTTPException c d" by (cases e) simp_all
  with co have "checkout new payload db = (Inl (HTTPException c d), db')" by simp
  with fr show ?thesis by blast
qed

text \<open>
  C3: a checkout whose cart holds a line with a product id that no product has is to
  fail with status 404 naming that id, and to persist no order. The code does so when
  the id is a well-formed identifier: the lookup finds nothing and line 92 raises the
  404. For a malformed id such as \<open>nope\<close>, which no product has either,
  \<^verbatim>\<open>ObjectId\<close> raises before the lookup and the handler of lines 120 and 121
  answers 500. In both cases nothing is persisted.
\<close>

theorem malformed_product_id_answers_500:
  "resolve store (line ''nope'' 1) = None \<and>
   checkout oid_e (request [line ''nope'' 1]) store =
     (Inl (HTTPException 500 (Str (InvalidId ''nope''))), store) \<and>
   resolve store (line oid_c 1) = None \<and>
   checkout oid_e (request [line oid_c 1]) store =
     (Inl (HTTPException 404 (Message ''Product cccccccccccccccccccccccc not found'')),
      store\<lparr>calls := [Find_product oid_c]\<rparr>)"
  by (simp add: resolve_def handler_defs example_defs)

text \<open>
  C6: a checkout request with a cart line of quantity below 1 is to be rejected as a
  validation error before any store interaction. The code does otherwise: a line with
  quantity 0 passes the validation of the request body, the handler fetches the product,
  and only the constructor of the order item refuses the quantity, which surfaces as
  status 500. No order is inserted.
\<close>

theorem quantity_zero_reaches_store:
  "post_checkout oid_e (request [line oid_a 0]) store =
     (Inl (HTTPException 500 (Str (ValidationError ''OrderItem'' [''quantity'']))),
      store\<lparr>calls := [Find_product oid_a]\<rparr>)"
  by (simp add: handler_defs example_defs)

text \<open>
  C7: a product body with a negative price, or with a warmth rating below 1 or above 5,
  is rejected by the validation of the request; the store is left as it was and no call
  is made on it.
\<close>

theorem invalid_product_rejected:
  assumes "Product.price body < 0 \<or>
           (\<exists>w. Product.warmth_rating body = Some w \<and> (w < 1 \<or> 5 < w))"
  shows "\<exists>fs. fs \<noteq> [] \<and> set fs \<subseteq> {''price'', ''warmth_rating''} \<and>
           post_products new body db = (Inl (RequestValidationError fs), db)"
proof -
  let ?fs = "Product_errors (Product.price body) (Product.warmth_rating body)"
  from assms have ne: "?fs \<noteq> []"
    by (auto simp: Product_errors_def)
  have sub: "set ?fs \<subseteq> {''price'', ''warmth_rating''}"
    by (auto simp: Product_errors_def split: option.splits if_splits)
  from ne have "post_products new body db = (Inl (RequestValidationError ?fs), db)"
    by (cases ?fs) (simp_all add: post_products_def)
  with ne sub show ?thesis by blast
qed

theorem invalid_product_rejected_witness:
  "post_products oid_e (leggings (- 1) (Some 5)) store =
     (Inl (RequestValidationError [''price'']), store) \<and>
   post_products oid_e (leggings 20 (Some 6)) store =
     (Inl (RequestValidationError [''warmth_rating'']), store)"
proof -
  have a: "Product.price (leggings (- 1) (Some 5)) < 0" by (simp add: leggings_def)
  have b: "\<exists>w. Product.warmth_rating (leggings 20 (Some 6)) = Some w \<and> (w < 1 \<or> 5 < w)"
    by (simp add: leggings_def)
  from invalid_product_rejected [of "leggings (- 1) (Some 5)" oid_e store] a
       invalid_product_rejected [of "leggings 20 (Some 6)" oid_e store] b
  show ?thesis
    by (simp add: post_products_def Product_errors_def leggings_def)
qed

lemma line_ok_nonneg: "line_ok db item \<Longrightarrow> 0 \<le> line_total db item"
  by (cases "resolve db item") (simp_all add: line_ok_def line_total_def OrderItem_errors_Nil)

lemma sum_list_line_total_nonneg:
  "\<forall>item \<in> set its. line_ok db item \<Longrightarrow> 0 \<le> sum_list (map (line_total db) its)"
  by (induction its) (simp_all add: line_ok_nonneg)

lemma unpriced_line_total: "\<not> priced db item \<Longrightarrow> line_total db item = 0"
  by (cases "resolve db item")
     (auto simp: priced_def line_total_def get_price_def split: option.splits)

lemma sum_list_priced:
  "sum_list (map (line_total db) (filter (priced db) its)) = sum_list (map (line_total db) its)"
  by (induction its) (simp_all add: unpriced_line_total)

lemma unpriced_snapshot: "snapshot db item oi \<Longrightarrow> \<not> priced db item \<Longrightarrow> OrderItem.price oi = 0"
  by (cases "resolve db item")
     (auto simp: priced_def snapshot_def get_price_def split: option.splits)

lemma checkout_order_total:
  assumes "reachable db" and "\<forall>item \<in> set (CheckoutRequest.items payload). line_ok db item"
  shows "\<exists>ord db1. checkout_order payload db = (Inr ord, db1)"
proof -
  from checkout_loop_total [OF assms, of "[]" 0] obtain ois st db1 where
    l: "checkout_loop (CheckoutRequest.items payload) [] 0 db = (Inr (ois, st), db1)" by blast
  from checkout_loop_Inr [OF l] have "st = sum_list (map (line_total db) (CheckoutRequest.items payload))"
    by simp
  with sum_list_line_total_nonneg [OF assms(2)] have "0 \<le> st" by simp
  then have "Order_errors st (if 100 \<le> st then 0 else 10) (st + (if 100 \<le> st then 0 else 10)) = []"
    by (simp add: Order_errors_def)
  with l show ?thesis
    by (simp add: checkout_order_def Order_init_def Let_def)
qed

lemma checkout_order_frame:
  assumes "checkout_order payload db = (r, db1)"
  shows "product db1 = product db \<and> order db1 = order db \<and> reachable db1 = reachable db \<and>
         (\<exists>cs. calls db1 = calls db @ cs \<and> only_finds cs)"
proof -
  obtain r' db2 where l: "checkout_loop (CheckoutRequest.items payload) [] 0 db = (r', db2)"
    by (cases "checkout_loop (CheckoutRequest.items payload) [] 0 db")
  with assms have "db2 = db1"
    by (cases r') (auto simp: checkout_order_def Let_def split: prod.splits)
  with checkout_loop_frame [OF l] show ?thesis by simp
qed

lemma checkout_persists:
  assumes "checkout_order payload db = (Inr ord, db1)" and "reachable db"
  shows "\<exists>db'. checkout new payload db = (Inr (str new), db') \<and>
           order db' = order db @ [(new, ord)] \<and> product db' = product db"
proof -
  from checkout_order_frame [OF assms(1)] assms(2) have
    f: "reachable db1" "order db1 = order db" "product db1 = product db" by simp_all
  with assms(1) have
    "checkout new payload db =
       (Inr (str new), db1\<lparr>calls := calls db1 @ [Insert_order], order := order db1 @ [(new, ord)]\<rparr>)"
    by (simp add: checkout_def checkout_body_def create_document_order_def Let_def)
  with f show ?thesis by simp
qed

text \<open>
  C10: let the store be reachable and let every cart line pass the loop body: it
  resolves to a document with a title, the price of the document is absent or not
  negative, and the quantity is at least 1 and within the range of a float. Then
  checkout succeeds and persists the order it constructs; a line whose document has no
  price key gets an order item of price 0, and the subtotal is the sum over the lines
  whose document does have one.
\<close>

theorem missing_price_counts_as_zero:
  assumes "reachable db" and "\<forall>item \<in> set (CheckoutRequest.items payload). line_ok db item"
  shows "\<exists>ord db1 db'. checkout_order payload db = (Inr ord, db1) \<and>
           checkout new payload db = (Inr (str new), db') \<and>
           order db' = order db @ [(new, ord)] \<and>
           (\<forall>i < length (CheckoutRequest.items payload).
              \<not> priced db (CheckoutRequest.items payload ! i) \<longrightarrow>
                OrderItem.price (Order.items ord ! i) = 0) \<and>
           Order.subtotal ord =
             (\<Sum>item \<leftarrow> filter (priced db) (CheckoutRequest.items payload). line_total db item)"
proof -
  from checkout_order_total [OF assms] obtain ord db1 where
    co: "checkout_order payload db = (Inr ord, db1)" by blast
  from checkout_persists [OF co assms(1), of new] obtain db' where
    ch: "checkout new payload db = (Inr (str new), db')" "order db' = order db @ [(new, ord)]"
    by blast
  from checkout_order_snapshot [OF co] have
    la: "list_all2 (snapshot db) (CheckoutRequest.items payload) (Order.items ord)" and
    su: "Order.subtotal ord = sum_list (map (line_total db) (CheckoutRequest.items payload))"
    by simp_all
  have z: "OrderItem.price (Order.items ord ! i) = 0"
    if "i < length (CheckoutRequest.items payload)" "\<not> priced db (CheckoutRequest.items payload ! i)"
    for i
    using list_all2_nthD [OF la that(1)] that(2) by (rule unpriced_snapshot)
  from su have "Order.subtotal ord =
      (\<Sum>item \<leftarrow> filter (priced db) (CheckoutRequest.items payload). line_total db item)"
    by (simp add: sum_list_priced)
  with co ch z show ?thesis by blast
qed

theorem missing_price_counts_as_zero_witness:
  "\<not> priced store (line oid_b 3) \<and> priced store (line oid_a 1) \<and>
   fst (checkout oid_e (request [line oid_b 3, line oid_a 1]) store) = Inr oid_e \<and>
   (\<exists>ord. order (snd (checkout oid_e (request [line oid_b 3, line oid_a 1]) store)) = [(oid_e, ord)] \<and>
      map OrderItem.price (Order.items ord) = [0, 50] \<and> Order.subtotal ord = 50)"
proof -
  let ?req = "request [line oid_b 3, line oid_a 1]"
  have h1: "reachable store" by (simp add: store_def)
  have h2: "\<forall>item \<in> set (CheckoutRequest.items ?req). line_ok store item"
    by (simp add: request_def line_ok_def resolve_def handler_defs example_defs)
  have p: "\<not> priced store (line oid_b 3)" "priced store (line oid_a 1)"
    by (simp_all add: priced_def resolve_def handler_defs example_defs)
  have lt: "line_total store (line oid_a 1) = 50"
    by (simp add: line_total_def resolve_def handler_defs example_defs)
  from missing_price_counts_as_zero [OF h1 h2, of oid_e] obtain ord db1 db' where
    co: "checkout_order ?req store = (Inr ord, db1)" and
    ch: "checkout oid_e ?req store = (Inr (str oid_e), db')" and
    o: "order db' = order store @ [(oid_e, ord)]" and
    z: "\<forall>i < length (CheckoutRequest.items ?req).
          \<not> priced store (CheckoutRequest.items ?req ! i) \<longrightarrow> OrderItem.price (Order.items ord ! i) = 0" and
    su: "Order.subtotal ord =
          (\<Sum>item \<leftarrow> filter (priced store) (CheckoutRequest.items ?req). line_total store item)"
    by blast
  from su p lt have s50: "Order.subtotal ord = 50" by (simp add: request_def)
  from z p have p0: "OrderItem.price (Order.items ord ! 0) = 0" by (simp add: request_def)
  from checkout_order_snapshot [OF co]
  have "list_all2 (snapshot store) [line oid_b 3, line oid_a 1] (Order.items ord)"
    by (simp add: request_def)
  then obtain x y where xy: "Order.items ord = [x, y]" and sy: "snapshot store (line oid_a 1) y"
    by (auto simp: list_all2_Cons1)
  have "resolve store (line oid_a 1) = Some (doc ''Alpine'' (Some 50))"
    by (simp add: resolve_def handler_defs example_defs)
  with sy have "OrderItem.price y = 50"
    by (simp add: snapshot_def get_price_def doc_def)
  with xy p0 have "map OrderItem.price (Order.items ord) = [0, 50]" by simp
  with ch o s50 p show ?thesis by (simp add: str_def store_def)
qed

section \<open>Creating and listing products\<close>

lemma list_loop_append:
  "list_loop (xs @ ys) acc =
     (case list_loop xs acc of Inl e \<Rightarrow> Inl e | Inr acc1 \<Rightarrow> list_loop ys acc1)"
  by (induction xs arbitrary: acc) (simp_all split: sum.splits)

lemma ProductResponse_init_id:
  "ProductResponse_init (i, d) = Inr r \<Longrightarrow> id' r = str i"
  by (cases "ProductResponse_errors d") (auto simp: ProductResponse_init_def)

lemma ProductResponse_init_valid:
  "ProductResponse_errors d = [] \<Longrightarrow> \<exists>r. ProductResponse_init (i, d) = Inr r"
  by (simp add: ProductResponse_init_def)

lemma list_loop_valid:
  "\<forall>x \<in> set docs. ProductResponse_errors (snd x) = [] \<Longrightarrow>
     \<exists>rs. list_loop docs acc = Inr (acc @ rs) \<and> map id' rs = map (\<lambda>x. str (fst x)) docs"
proof (induction docs arbitrary: acc)
  case Nil
  then show ?case by simp
next
  case (Cons x docs)
  obtain i d where x: "x = (i, d)" by (cases x)
  with Cons.prems have "ProductResponse_errors d = []" by simp
  from ProductResponse_init_valid [OF this] obtain r where r: "ProductResponse_init (i, d) = Inr r"
    by blast
  from Cons.prems have "\<forall>x \<in> set docs. ProductResponse_errors (snd x) = []" by simp
  from Cons.IH [OF this, of "acc @ [r]"] obtain rs where
    rs: "list_loop docs (acc @ [r]) = Inr ((acc @ [r]) @ rs)" "map id' rs = map (\<lambda>x. str (fst x)) docs"
    by blast
  from x r rs ProductResponse_init_id [OF r]
  have "list_loop (x # docs) acc = Inr (acc @ (r # rs))"
       "map id' (r # rs) = map (\<lambda>x. str (fst x)) (x # docs)"
    by simp_all
  then show ?case by blast
qed

lemma model_dump_errors:
  "ProductResponse_errors (model_dump p) = Product_errors (Product.price p) (Product.warmth_rating p)"
  by (cases "Product.warmth_rating p")
     (simp_all add: ProductResponse_errors_def Product_errors_def model_dump_def)

lemma ProductResponse_init_model_dump:
  assumes "Product_errors (Product.price p) (Product.warmth_rating p) = []"
  shows "\<exists>r. ProductResponse_init (i, model_dump p) = Inr r \<and> Product.truncate r = p \<and> id' r = str i"
proof -
  from assms have "ProductResponse_errors (model_dump p) = []" by (simp add: model_dump_errors)
  then show ?thesis
    by (simp add: ProductResponse_init_def model_dump_def Product.truncate_def)
qed

text \<open>
  C9: let the store be reachable, let every document of the collection satisfy the
  product schema, and let the identifier the store assigns be new to the collection.
  Then posting a valid product returns that identifier, and the unfiltered listing that
  follows succeeds and contains exactly one entry with that identifier, whose product
  fields are those of the posted product.
\<close>

theorem created_product_is_listed_once:
  assumes "Product_errors (Product.price p) (Product.warmth_rating p) = []"
    and "reachable db"
    and "\<forall>x \<in> set (product db). ProductResponse_errors (snd x) = []"
    and "new \<notin> fst ` set (product db)"
  shows "\<exists>db1 db2 listed r.
           post_products new p db = (Inr (str new), db1) \<and>
           list_products None db1 = (Inr listed, db2) \<and>
           filter (\<lambda>x. id' x = str new) listed = [r] \<and>
           Product.truncate r = p \<and> id' r = str new"
proof -
  let ?db1 = "db\<lparr>calls := calls db @ [Insert_product],
                  product := product db @ [(new, model_dump p)]\<rparr>"
  let ?db2 = "?db1\<lparr>calls := calls ?db1 @ [Get_documents_product None]\<rparr>"
  from assms(1,2) have post: "post_products new p db = (Inr (str new), ?db1)"
    by (simp add: post_products_def create_product_def create_document_product_def Let_def)
  from list_loop_valid [OF assms(3), of "[]"] obtain rs where
    rs: "list_loop (product db) [] = Inr rs" "map id' rs = map (\<lambda>x. str (fst x)) (product db)"
    by auto
  from ProductResponse_init_model_dump [OF assms(1), of new] obtain r where
    r: "ProductResponse_init (new, model_dump p) = Inr r" "Product.truncate r = p" "id' r = str new"
    by blast
  from rs(1) r(1) have loop: "list_loop (product db @ [(new, model_dump p)]) [] = Inr (rs @ [r])"
    by (simp add: list_loop_append)
  have all: "filter (\<lambda>(i, d). matches None d) (product ?db1) = product db @ [(new, model_dump p)]"
    by (simp add: matches_def)
  from assms(2) all loop have list: "list_products None ?db1 = (Inr (rs @ [r]), ?db2)"
    by (simp add: list_products_def get_documents_product_def Let_def)
  have "str new \<notin> set (map id' rs)"
    using assms(4) rs(2) by (auto simp: str_def)
  then have "\<forall>x \<in> set rs. id' x \<noteq> str new"
    by (metis image_eqI set_map)
  then have "filter (\<lambda>x. id' x = str new) rs = []"
    by (simp add: filter_empty_conv)
  with r(3) have "filter (\<lambda>x. id' x = str new) (rs @ [r]) = [r]" by simp
  with post list r show ?thesis by blast
qed

theorem created_product_is_listed_once_witness:
  "fst (post_products oid_e (leggings 20 (Some 4)) catalog) = Inr oid_e \<and>
   (\<exists>listed. fst (list_products None (snd (post_products oid_e (leggings 20 (Some 4)) catalog))) = Inr listed \<and>
      map id' listed = [oid_a, oid_d, oid_e] \<and>
      map Product.truncate (filter (\<lambda>x. id' x = oid_e) listed) = [leggings 20 (Some 4)])"
proof -
  let ?p = "leggings 20 (Some 4)"
  have h1: "Product_errors (Product.price ?p) (Product.warmth_rating ?p) = []"
    by (simp add: Product_errors_def leggings_def)
  have h2: "reachable catalog" by (simp add: example_defs)
  have h3: "\<forall>x \<in> set (product catalog). ProductResponse_errors (snd x) = []"
    by (simp add: ProductResponse_errors_def example_defs)
  have h4: "oid_e \<notin> fst ` set (product catalog)" by (simp add: example_defs)
  from created_product_is_listed_once [OF h1 h2 h3 h4] obtain db1 db2 listed r where
    po: "post_products oid_e ?p catalog = (Inr (str oid_e), db1)" and
    li: "list_products None db1 = (Inr listed, db2)" and
    fi: "filter (\<lambda>x. id' x = str oid_e) listed = [r]" and
    tr: "Product.truncate r = ?p"
    by blast
  have ids: "map id' listed = [oid_a, oid_d, oid_e]"
  proof -
    from po have "db1 = snd (post_products oid_e ?p catalog)" by simp
    with li have "fst (list_products None (snd (post_products oid_e ?p catalog))) = Inr listed"
      by simp
    then show ?thesis
      by (auto simp: post_products_def create_product_def create_document_product_def
          list_products_def get_documents_product_def matches_def ProductResponse_init_def
          ProductResponse_errors_def Product_errors_def model_dump_def str_def Let_def example_defs)
  qed
  from po li fi tr ids show ?thesis by (simp add: str_def)
qed

end
